theory Spec2Isabelle
  imports Complex_Main "HOL-Library.AList"
begin

section \<open>Values of the language\<close>

text \<open>
  The front end of the precision-farming application is one script, \<^verbatim>\<open>app.js\<close>: a submit
  handler that turns the form into a JSON request, a rendering function and a reset
  function. The script computes with JavaScript numbers, strings and the objects that
  \<^verbatim>\<open>JSON.parse\<close> returns, so these come first.

  A number is a binary64 value. A finite one is kept as the rational it denotes (every
  binary64 number is a rational; the two zeros are not told apart, which no operation of
  the script does either). What is proved of \<^term>\<open>Finite q\<close> for every rational \<open>q\<close> holds of
  every finite number. Strings are lists of code units below 256.
\<close>

datatype number = NaN | PosInfinity | NegInfinity | Finite rat

datatype jsval =
    JUndefined
  | JNull
  | JBool bool
  | JNum number
  | JStr string
  | JArr "jsval list"
  | JObj "(string \<times> jsval) list"

subsection \<open>Rounding a rational to binary64\<close>

function bit_length :: "int \<Rightarrow> int" where
  "bit_length n = (if n \<le> 0 then 0 else 1 + bit_length (n div 2))"
  by pat_completeness auto
termination
  by (relation "measure nat") auto

declare bit_length.simps [simp del]

definition binary_exponent :: "rat \<Rightarrow> int" where
  \<comment> \<open>\<open>\<lfloor>log\<^sub>2 x\<rfloor>\<close> for \<open>x > 0\<close>\<close>
  "binary_exponent x =
     (let (p, q) = quotient_of x;
          d = bit_length p - bit_length q
      in if power_int 2 d \<le> x then d else d - 1)"

definition round_half_even :: "rat \<Rightarrow> int" where
  "round_half_even x =
     (let f = \<lfloor>x\<rfloor>; r = x - of_int f
      in if r < 1 / 2 then f else if 1 / 2 < r then f + 1
         else if even f then f else f + 1)"

definition to_double :: "rat \<Rightarrow> number" where
  \<comment> \<open>round to nearest, ties to even; 53 significant bits, exponents from -1022 to 1023\<close>
  "to_double x =
     (if x = 0 then Finite 0
      else let a = \<bar>x\<bar>;
               e = max (binary_exponent a) (- 1022);
               ulp = power_int 2 (e - 52);
               v = of_int (round_half_even (a / ulp)) * ulp
           in if 2 ^ 1024 \<le> v then (if x < 0 then NegInfinity else PosInfinity)
              else Finite (if x < 0 then - v else v))"

subsection \<open>Decimal digits\<close>

definition digit_char :: "int \<Rightarrow> char" where
  "digit_char d = char_of (48 + d)"

definition is_digit :: "char \<Rightarrow> bool" where
  "is_digit c \<longleftrightarrow> 48 \<le> (of_char c :: nat) \<and> (of_char c :: nat) \<le> 57"

definition digit_val :: "char \<Rightarrow> int" where
  "digit_val c = of_char c - 48"

function digits :: "int \<Rightarrow> string" where
  "digits n = (if n < 10 then [digit_char n] else digits (n div 10) @ [digit_char (n mod 10)])"
  by pat_completeness auto
termination
  by (relation "measure nat") auto

declare digits.simps [simp del]

definition digits_val :: "string \<Rightarrow> int" where
  "digits_val ds = foldl (\<lambda>n c. 10 * n + digit_val c) 0 ds"

subsection \<open>\<^verbatim>\<open>parseFloat\<close>\<close>

text \<open>
  \<^verbatim>\<open>parseFloat(s)\<close> skips leading white space and reads the longest prefix of the rest that
  is a decimal literal: an optional sign, then \<^verbatim>\<open>Infinity\<close> or digits with an optional
  fraction and an optional exponent. With no such prefix the result is \<^verbatim>\<open>NaN\<close>.
\<close>

definition is_white_space :: "char \<Rightarrow> bool" where
  "is_white_space c \<longleftrightarrow> of_char c \<in> {9, 10, 11, 12, 13, 32, 160 :: nat}"

definition parse_exponent :: "string \<Rightarrow> int" where
  \<comment> \<open>the exponent part at the head of the rest, 0 when there is none\<close>
  "parse_exponent s =
     (case s of
        [] \<Rightarrow> 0
      | c # t \<Rightarrow>
          if c = CHR ''e'' \<or> c = CHR ''E'' then
            (case t of
               [] \<Rightarrow> 0
             | d # u \<Rightarrow>
                 if d = CHR ''+'' \<or> d = CHR ''-'' then
                   (let ds = takeWhile is_digit u
                    in if ds = [] then 0
                       else if d = CHR ''-'' then - digits_val ds else digits_val ds)
                 else digits_val (takeWhile is_digit t))
          else 0)"

definition parse_unsigned :: "string \<Rightarrow> number" where
  "parse_unsigned s =
     (if take 8 s = ''Infinity'' then PosInfinity
      else let ip = takeWhile is_digit s;
               r = dropWhile is_digit s;
               fp = (case r of [] \<Rightarrow> [] | c # t \<Rightarrow> if c = CHR ''.'' then takeWhile is_digit t else []);
               r' = (case r of [] \<Rightarrow> [] | c # t \<Rightarrow> if c = CHR ''.'' then dropWhile is_digit t else r)
           in if ip = [] \<and> fp = [] then NaN
              else to_double (of_int (digits_val (ip @ fp))
                     * power_int 10 (parse_exponent r' - int (length fp))))"

definition negate :: "number \<Rightarrow> number" where
  "negate x = (case x of NaN \<Rightarrow> NaN | PosInfinity \<Rightarrow> NegInfinity
                | NegInfinity \<Rightarrow> PosInfinity | Finite q \<Rightarrow> Finite (- q))"

definition parseFloat :: "string \<Rightarrow> number" where
  "parseFloat s =
     (case dropWhile is_white_space s of
        [] \<Rightarrow> NaN
      | c # t \<Rightarrow>
          if c = CHR ''-'' then negate (parse_unsigned t)
          else if c = CHR ''+'' then parse_unsigned t
          else parse_unsigned (c # t))"

section \<open>Building the request payload\<close>

text \<open>
  The entries of the form are pairs of a name and a string (a file control, whose entry
  holds a file, is left out of the model). \<^verbatim>\<open>data\<close> starts as the empty object literal and
  gets numbers and strings as property values. A property list keeps the own properties
  in creation order: assigning to a name that is already there replaces the value where
  it stands, a new name goes to the end (\<^const>\<open>AList.update\<close>). The one name that
  never becomes an own property by assignment is \<^verbatim>\<open>__proto__\<close>: \<^verbatim>\<open>data\<close> inherits an
  accessor of that name, the assignment calls its setter, and the setter ignores a value
  that is a number or a string, the only values the loop assigns.
\<close>

datatype payload_value = PNum number | PStr string

type_synonym payload = "(string \<times> payload_value) list"

definition set_property :: "payload \<Rightarrow> string \<Rightarrow> payload_value \<Rightarrow> payload" where
  "set_property obj key v = (if key = ''__proto__'' then obj else AList.update key v obj)"

definition own_property :: "payload \<Rightarrow> string \<Rightarrow> payload_value option" where
  "own_property obj key = map_of obj key"

definition entry_value :: "string \<Rightarrow> string \<Rightarrow> payload_value" where
  \<comment> \<open>the right-hand side of the assignment in the loop body, lines 12 to 17\<close>
  "entry_value key val =
     (if key \<noteq> ''region'' \<and> key \<noteq> ''crop_type'' \<and> key \<noteq> ''irrigation_type'' \<and>
         key \<noteq> ''fertilizer_type'' \<and> key \<noteq> ''crop_disease_status''
      then PNum (parseFloat val)
      else PStr val)"

fun collect :: "(string \<times> string) list \<Rightarrow> payload \<Rightarrow> payload" where
  "collect [] data = data"
| "collect ((key, val) # rest) data = collect rest (set_property data key (entry_value key val))"

definition build_payload :: "(string \<times> string) list \<Rightarrow> payload" where
  "build_payload entries = collect entries []"

section \<open>Numbers as text\<close>

subsection \<open>\<^verbatim>\<open>Number::toString\<close>\<close>

text \<open>
  The decimal text of a positive finite number \<open>x\<close> is made of the shortest digit string
  \<open>s\<close> (\<open>k\<close> digits) and the exponent \<open>n\<close> with \<open>s \<times> 10\<^bsup>n - k\<^esup>\<close> rounding to \<open>x\<close>; among
  several \<open>s\<close> of that length the one nearest to \<open>x\<close> is taken.
\<close>

definition decimal_exponent :: "rat \<Rightarrow> int" where
  \<comment> \<open>the \<open>n\<close> with \<open>10\<^bsup>n - 1\<^esup> \<le> x < 10\<^bsup>n\<^esup>\<close>, for \<open>x > 0\<close>\<close>
  "decimal_exponent x =
     (let (p, q) = quotient_of x;
          d = int (length (digits p)) - int (length (digits q))
      in if power_int 10 d \<le> x then d + 1 else d)"

definition rounds_to :: "rat \<Rightarrow> int \<Rightarrow> rat \<Rightarrow> bool" where
  "rounds_to x s scale \<longleftrightarrow> to_double (of_int s * scale) = Finite x"

definition nearest_digits :: "rat \<Rightarrow> int \<Rightarrow> int \<Rightarrow> int option" where
  \<comment> \<open>the \<open>k\<close>-digit \<open>s\<close> at exponent \<open>n\<close> that rounds to \<open>x\<close>, if there is one\<close>
  "nearest_digits x n k =
     (let scale = power_int 10 (n - k);
          lo = \<lfloor>x / scale\<rfloor>;
          hi = lo + 1;
          lo_ok = rounds_to x lo scale;
          hi_ok = rounds_to x hi scale;
          dl = x - of_int lo * scale;
          dh = of_int hi * scale - x
      in if lo_ok \<and> hi_ok then
           Some (if dl < dh then lo else if dh < dl then hi else if even lo then lo else hi)
         else if lo_ok then Some lo
         else if hi_ok then Some hi
         else None)"

fun shortest_digits :: "rat \<Rightarrow> int \<Rightarrow> nat \<Rightarrow> nat \<Rightarrow> int \<times> int" where
  \<comment> \<open>tries \<open>k\<close>, \<open>k + 1\<close>, ...; seventeen digits tell any two binary64 numbers apart\<close>
  "shortest_digits x n k 0 = (\<lfloor>x / power_int 10 (n - int k)\<rfloor>, int k)"
| "shortest_digits x n k (Suc fuel) =
     (case nearest_digits x n (int k) of
        Some s \<Rightarrow> (s, int k)
      | None \<Rightarrow> shortest_digits x n (Suc k) fuel)"

definition positive_to_string :: "rat \<Rightarrow> string" where
  "positive_to_string x =
     (let n0 = decimal_exponent x;
          (s0, k) = shortest_digits x n0 1 17;
          (s, n) = (if s0 = 10 ^ nat k then (10 ^ nat (k - 1), n0 + 1) else (s0, n0));
          ds = digits s
      in if k \<le> n \<and> n \<le> 21 then ds @ replicate (nat (n - k)) CHR ''0''
         else if 0 < n \<and> n \<le> 21 then take (nat n) ds @ ''.'' @ drop (nat n) ds
         else if - 6 < n \<and> n \<le> 0 then ''0.'' @ replicate (nat (- n)) CHR ''0'' @ ds
         else let e = n - 1;
                  sign = (if 0 \<le> e then ''+'' else ''-'');
                  mantissa = (if k = 1 then ds else take 1 ds @ ''.'' @ drop 1 ds)
              in mantissa @ ''e'' @ sign @ digits \<bar>e\<bar>)"

definition number_to_string :: "number \<Rightarrow> string" where
  "number_to_string x =
     (case x of
        NaN \<Rightarrow> ''NaN''
      | PosInfinity \<Rightarrow> ''Infinity''
      | NegInfinity \<Rightarrow> ''-Infinity''
      | Finite q \<Rightarrow>
          if q = 0 then ''0''
          else if q < 0 then ''-'' @ positive_to_string (- q)
          else positive_to_string q)"

subsection \<open>\<^verbatim>\<open>Number.prototype.toFixed\<close>\<close>

text \<open>
  \<^verbatim>\<open>x.toFixed(f)\<close> for \<open>0 \<le> f \<le> 100\<close>, the only calls of the script being \<open>f = 2\<close> and
  \<open>f = 0\<close>. A number that is not finite gives its name; a magnitude from \<open>10\<^sup>2\<^sup>1\<close> on is
  printed as \<^verbatim>\<open>toString\<close> prints it; otherwise the integer \<open>n\<close> nearest to \<open>x \<times> 10\<^sup>f\<close> (the
  larger of two) is written with a point before its last \<open>f\<close> digits.
\<close>

definition toFixed :: "number \<Rightarrow> nat \<Rightarrow> string" where
  "toFixed x f =
     (case x of
        Finite q \<Rightarrow>
          (let s = (if q < 0 then ''-'' else []);
               a = \<bar>q\<bar>
           in if 10 ^ 21 \<le> a then s @ number_to_string (Finite a)
              else
                let n = \<lfloor>a * 10 ^ f + 1 / 2\<rfloor>;
                    m = (if n = 0 then ''0'' else digits n);
                    k = length m;
                    m' = (if k \<le> f then replicate (f + 1 - k) CHR ''0'' @ m else m);
                    k' = length m'
                in s @ (if f \<noteq> 0 then take (k' - f) m' @ ''.'' @ drop (k' - f) m' else m))
      | _ \<Rightarrow> number_to_string x)"

section \<open>Operations on values\<close>

text \<open>
  What can be thrown: a \<^verbatim>\<open>TypeError\<close> raised by the engine inside the script, or the error
  object a rejected promise carries, of which the script reads the \<^verbatim>\<open>message\<close>.
\<close>

datatype js_error = TypeError | Failure string

definition truthy :: "jsval \<Rightarrow> bool" where
  "truthy v =
     (case v of
        JUndefined \<Rightarrow> False
      | JNull \<Rightarrow> False
      | JBool b \<Rightarrow> b
      | JNum x \<Rightarrow> x \<noteq> NaN \<and> x \<noteq> Finite 0
      | JStr s \<Rightarrow> s \<noteq> []
      | JArr _ \<Rightarrow> True
      | JObj _ \<Rightarrow> True)"

definition get_member :: "jsval \<Rightarrow> string \<Rightarrow> js_error + jsval" where
  \<comment> \<open>\<^verbatim>\<open>v.name\<close>, for the names the script reads: none of them is inherited from a prototype\<close>
  "get_member v name =
     (case v of
        JUndefined \<Rightarrow> Inl TypeError
      | JNull \<Rightarrow> Inl TypeError
      | JObj ps \<Rightarrow> Inr (case map_of ps name of None \<Rightarrow> JUndefined | Some w \<Rightarrow> w)
      | _ \<Rightarrow> Inr JUndefined)"

definition call_toFixed :: "jsval \<Rightarrow> nat \<Rightarrow> js_error + string" where
  \<comment> \<open>\<^verbatim>\<open>v.toFixed(f)\<close>: only a number has the method\<close>
  "call_toFixed v f = (case v of JNum x \<Rightarrow> Inr (toFixed x f) | _ \<Rightarrow> Inl TypeError)"

text \<open>
  \<^verbatim>\<open>ToString\<close>. An array is joined with commas, \<^verbatim>\<open>null\<close> and \<^verbatim>\<open>undefined\<close> elements giving
  nothing. An object is converted by the inherited \<^verbatim>\<open>toString\<close>, unless it has an own
  property of that name: a parsed value is never callable, and the conversion throws.
\<close>

fun to_string :: "jsval \<Rightarrow> js_error + string"
  and join_elements :: "jsval list \<Rightarrow> js_error + string" where
  "to_string JUndefined = Inr ''undefined''"
| "to_string JNull = Inr ''null''"
| "to_string (JBool b) = Inr (if b then ''true'' else ''false'')"
| "to_string (JNum x) = Inr (number_to_string x)"
| "to_string (JStr s) = Inr s"
| "to_string (JArr xs) = join_elements xs"
| "to_string (JObj ps) =
     (if ''toString'' \<in> set (map fst ps) then Inl TypeError else Inr ''[object Object]'')"
| "join_elements [] = Inr []"
| "join_elements (x # xs) =
     (case (if x = JUndefined \<or> x = JNull then Inr [] else to_string x) of
        Inl e \<Rightarrow> Inl e
      | Inr s \<Rightarrow>
          (case join_elements xs of
             Inl e \<Rightarrow> Inl e
           | Inr r \<Rightarrow> Inr (if xs = [] then s else s @ '','' @ r)))"

definition to_dom_string :: "jsval \<Rightarrow> js_error + string" where
  \<comment> \<open>the conversion of a value assigned to \<^verbatim>\<open>textContent\<close>, a nullable string\<close>
  "to_dom_string v = (if v = JUndefined \<or> v = JNull then Inr [] else to_string v)"

section \<open>\<^verbatim>\<open>JSON.stringify\<close>\<close>

text \<open>
  A string is quoted with the escapes of JSON. A number that is not finite is written
  \<^verbatim>\<open>null\<close>: JSON has no text for it. The properties of an object are written in the
  order of its own keys: the keys that are array indices first, in ascending order, then
  the others as they were created.
\<close>

definition hex_digit :: "nat \<Rightarrow> char" where
  "hex_digit d = (if d < 10 then char_of (48 + d) else char_of (87 + d))"

definition quote_char :: "char \<Rightarrow> string" where
  "quote_char c =
     (let n = (of_char c :: nat)
      in if n = 8 then [CHR 0x5C, CHR ''b'']
         else if n = 9 then [CHR 0x5C, CHR ''t'']
         else if n = 10 then [CHR 0x5C, CHR ''n'']
         else if n = 12 then [CHR 0x5C, CHR ''f'']
         else if n = 13 then [CHR 0x5C, CHR ''r'']
         else if n = 34 then [CHR 0x5C, CHR 0x22]
         else if n = 92 then [CHR 0x5C, CHR 0x5C]
         else if n < 32 then [CHR 0x5C, CHR ''u'', CHR ''0'', CHR ''0'',
                              hex_digit (n div 16), hex_digit (n mod 16)]
         else [c])"

definition quote_json :: "string \<Rightarrow> string" where
  "quote_json s = [CHR 0x22] @ concat (map quote_char s) @ [CHR 0x22]"

fun join :: "string \<Rightarrow> string list \<Rightarrow> string" where
  "join sep [] = []"
| "join sep [x] = x"
| "join sep (x # y # ys) = x @ sep @ join sep (y # ys)"

definition array_index :: "string \<Rightarrow> int option" where
  \<comment> \<open>the index a key denotes: a canonical numeral below \<open>2\<^sup>3\<^sup>2 - 1\<close>\<close>
  "array_index key =
     (if key \<noteq> [] \<and> list_all is_digit key \<and> (key = ''0'' \<or> hd key \<noteq> CHR ''0'') \<and>
         digits_val key < 2 ^ 32 - 1
      then Some (digits_val key) else None)"

definition own_keys_order :: "payload \<Rightarrow> payload" where
  "own_keys_order ps =
     sort_key (\<lambda>(k, v). case array_index k of Some i \<Rightarrow> i | None \<Rightarrow> 0)
       (filter (\<lambda>(k, v). array_index k \<noteq> None) ps)
     @ filter (\<lambda>(k, v). array_index k = None) ps"

definition json_value :: "payload_value \<Rightarrow> string" where
  "json_value v =
     (case v of
        PNum x \<Rightarrow> (case x of Finite q \<Rightarrow> number_to_string x | _ \<Rightarrow> ''null'')
      | PStr s \<Rightarrow> quote_json s)"

definition members_in_order :: "payload \<Rightarrow> (string \<times> string) list" where
  \<comment> \<open>the members of the object's text: the name and the text of the value of each\<close>
  "members_in_order data = map (\<lambda>(k, v). (k, json_value v)) (own_keys_order data)"

definition JSON_stringify :: "payload \<Rightarrow> string" where
  \<comment> \<open>\<^verbatim>\<open>JSON.stringify(data)\<close> for the object \<^verbatim>\<open>data\<close> of the handler\<close>
  "JSON_stringify data =
     ''{'' @ join '','' (map (\<lambda>(k, t). quote_json k @ '':'' @ t) (members_in_order data)) @ ''}''"

section \<open>The page\<close>

text \<open>
  The document, as far as the script touches it: the controls of the form with their
  default and current values, the \<^verbatim>\<open>display\<close> style of the loading indicator and of the
  results region, the text of the five result elements, the children of the tips list,
  and, in the order they happen, the effects that leave the script. The document is
  taken to be as the script expects it: every element the script looks up is there, and
  the form has the \<^verbatim>\<open>reset\<close> method of forms.
\<close>

record control =
  default_value :: string
  current_value :: string

datatype node = Element string string
  \<comment> \<open>an element child: tag name and text content\<close>

record request =
  url :: string
  http_method :: string
  headers :: "(string \<times> string) list"
  body :: string

datatype effect =
    PreventDefault
  | Fetch request
  | Alert string
  | ScrollIntoView string string
  | ConsoleLog string

record page =
  farmForm :: "control list"
  loadingIndicator_display :: string
  results_display :: string
  waterResult :: string
  fertilizerResult :: string
  yieldResult :: string
  waterRec :: string
  fertilizerRec :: string
  tipsList :: "node list"
  effects :: "effect list"

definition emit :: "effect \<Rightarrow> page \<Rightarrow> page" where
  "emit e p = p\<lparr>effects := effects p @ [e]\<rparr>"

text \<open>
  A statement runs on the page and either completes or throws; what it wrote before it
  threw stays written.
\<close>

type_synonym statement = "page \<Rightarrow> page \<times> js_error option"

definition assign :: "(js_error + 'a) \<Rightarrow> ('a \<Rightarrow> page \<Rightarrow> page) \<Rightarrow> statement" where
  "assign rhs store p = (case rhs of Inl e \<Rightarrow> (p, Some e) | Inr v \<Rightarrow> (store v p, None))"

fun block :: "statement list \<Rightarrow> statement" where
  "block [] p = (p, None)"
| "block (s # ss) p = (case s p of (p', None) \<Rightarrow> block ss p' | (p', Some e) \<Rightarrow> (p', Some e))"

definition then_call :: "(js_error + 'a) \<Rightarrow> ('a \<Rightarrow> js_error + 'b) \<Rightarrow> js_error + 'b" where
  "then_call r f = (case r of Inl e \<Rightarrow> Inl e | Inr v \<Rightarrow> f v)"

section \<open>\<^verbatim>\<open>displayResults\<close>\<close>

fun append_tips :: "jsval list \<Rightarrow> statement" where
  \<comment> \<open>the \<^verbatim>\<open>forEach\<close> callback, lines 66 to 70, over the elements in order\<close>
  "append_tips [] p = (p, None)"
| "append_tips (tip # rest) p =
     (case to_dom_string tip of
        Inl e \<Rightarrow> (p, Some e)
      | Inr t \<Rightarrow> append_tips rest (p\<lparr>tipsList := tipsList p @ [Element ''li'' t]\<rparr>))"

definition forEach_tip :: "jsval \<Rightarrow> statement" where
  \<comment> \<open>\<^verbatim>\<open>v.forEach(...)\<close>: only an array has the method\<close>
  "forEach_tip v p = (case v of JArr tips \<Rightarrow> append_tips tips p | _ \<Rightarrow> (p, Some TypeError))"

definition update_tips :: "jsval \<Rightarrow> statement" where
  \<comment> \<open>lines 64 to 70\<close>
  "update_tips predictions p =
     (let p' = p\<lparr>tipsList := []\<rparr>
      in case get_member predictions ''yield_optimization_tips'' of
           Inl e \<Rightarrow> (p', Some e)
         | Inr v \<Rightarrow> forEach_tip v p')"

definition update_values :: "jsval \<Rightarrow> statement list" where
  \<comment> \<open>lines 50 to 55\<close>
  "update_values predictions =
     [assign (then_call (get_member predictions ''water_requirement_mm_per_day'')
                (\<lambda>v. call_toFixed v 2))
        (\<lambda>t p. p\<lparr>waterResult := t\<rparr>),
      assign (then_call (get_member predictions ''fertilizer_requirement_kg_per_week'')
                (\<lambda>v. call_toFixed v 2))
        (\<lambda>t p. p\<lparr>fertilizerResult := t\<rparr>),
      assign (then_call (get_member predictions ''expected_yield_kg_per_hectare'')
                (\<lambda>v. call_toFixed v 0))
        (\<lambda>t p. p\<lparr>yieldResult := t\<rparr>)]"

definition update_recommendations :: "jsval \<Rightarrow> statement list" where
  \<comment> \<open>lines 58 to 61\<close>
  "update_recommendations predictions =
     [assign (then_call (get_member predictions ''irrigation_recommendation'') to_dom_string)
        (\<lambda>t p. p\<lparr>waterRec := t\<rparr>),
      assign (then_call (get_member predictions ''fertilizer_recommendation'') to_dom_string)
        (\<lambda>t p. p\<lparr>fertilizerRec := t\<rparr>)]"

definition show_results :: "statement list" where
  \<comment> \<open>lines 73 and 74\<close>
  "show_results =
     [\<lambda>p. (p\<lparr>results_display := ''block''\<rparr>, None),
      \<lambda>p. (emit (ScrollIntoView ''results'' ''smooth'') p, None)]"

definition displayResults :: "jsval \<Rightarrow> statement" where
  "displayResults predictions =
     block (update_values predictions @ update_recommendations predictions
            @ [update_tips predictions] @ show_results)"

section \<open>The submit handler\<close>

text \<open>
  The handler runs up to the call of \<^verbatim>\<open>fetch\<close>, waits, and goes on when the answer is
  there; nothing else writes to the page in between. What the network and the parsing of
  the body give is an input of the second part: a rejection with the message of its
  error, a body that is not JSON with the message of that error, or the parsed value.
  The text an engine puts in a \<^verbatim>\<open>TypeError\<close> of its own is not fixed by the language and
  is an input as well.
\<close>

datatype outcome = Rejected string | Unparseable string | Parsed jsval

definition submit_begin :: "(string \<times> string) list \<Rightarrow> page \<Rightarrow> page" where
  \<comment> \<open>lines 4 to 32; the argument is the entry list of \<^verbatim>\<open>new FormData(e.target)\<close>\<close>
  "submit_begin formData p =
     (let p1 = emit PreventDefault p;
          data = build_payload formData;
          p2 = p1\<lparr>loadingIndicator_display := ''block''\<rparr>;
          p3 = p2\<lparr>results_display := ''none''\<rparr>
      in emit (Fetch \<lparr>url = ''/api/predict'', http_method = ''POST'',
                      headers = [(''Content-Type'', ''application/json'')],
                      body = JSON_stringify data\<rparr>) p3)"

definition alert :: "string \<Rightarrow> page \<Rightarrow> page" where
  "alert msg p = emit (Alert msg) p"

definition try_block :: "outcome \<Rightarrow> statement" where
  \<comment> \<open>lines 25 to 40\<close>
  "try_block out p =
     (case out of
        Rejected m \<Rightarrow> (p, Some (Failure m))
      | Unparseable m \<Rightarrow> (p, Some (Failure m))
      | Parsed result \<Rightarrow>
          (case get_member result ''success'' of
             Inl e \<Rightarrow> (p, Some e)
           | Inr s \<Rightarrow>
               if truthy s then
                 (case get_member result ''predictions'' of
                    Inl e \<Rightarrow> (p, Some e)
                  | Inr predictions \<Rightarrow> displayResults predictions p)
               else
                 (case then_call (get_member result ''error'') to_string of
                    Inl e \<Rightarrow> (p, Some e)
                  | Inr t \<Rightarrow> (alert (''Error: '' @ t) p, None))))"

definition message :: "string \<Rightarrow> js_error \<Rightarrow> string" where
  "message type_error_message e = (case e of Failure m \<Rightarrow> m | TypeError \<Rightarrow> type_error_message)"

definition submit_resume :: "outcome \<Rightarrow> string \<Rightarrow> page \<Rightarrow> page" where
  \<comment> \<open>lines 34 to 45: the rest of \<^verbatim>\<open>try\<close>, then \<^verbatim>\<open>catch\<close> and \<^verbatim>\<open>finally\<close>\<close>
  "submit_resume out type_error_message p =
     (let (p1, thrown) = try_block out p;
          p2 = (case thrown of
                  None \<Rightarrow> p1
                | Some error \<Rightarrow>
                    alert (''Failed to get predictions: '' @ message type_error_message error) p1)
      in p2\<lparr>loadingIndicator_display := ''none''\<rparr>)"

definition submit_handler ::
  "(string \<times> string) list \<Rightarrow> outcome \<Rightarrow> string \<Rightarrow> page \<Rightarrow> page" where
  "submit_handler formData out type_error_message p =
     submit_resume out type_error_message (submit_begin formData p)"

section \<open>\<^verbatim>\<open>resetForm\<close> and the load listener\<close>

definition form_reset :: "control list \<Rightarrow> control list" where
  \<comment> \<open>the \<^verbatim>\<open>reset()\<close> of a form: every control goes back to its default value\<close>
  "form_reset cs = map (\<lambda>c. c\<lparr>current_value := default_value c\<rparr>) cs"

definition resetForm :: "page \<Rightarrow> page" where
  "resetForm p =
     (let p1 = p\<lparr>farmForm := form_reset (farmForm p)\<rparr>
      in p1\<lparr>results_display := ''none''\<rparr>)"

definition on_load :: "page \<Rightarrow> page" where
  "on_load p = emit (ConsoleLog ''Precision Farming ML - Frontend Initialized'') p"

section \<open>The words of the specification\<close>

text \<open>
  The specification names the fields that stay text as a set; the script tests the key
  against each name in turn. \<open>entry_value_cases\<close> below shows that the two agree.
\<close>

definition text_fields :: "string set" where
  "text_fields =
     {''region'', ''crop_type'', ''irrigation_type'', ''fertilizer_type'', ''crop_disease_status''}"

text \<open>
  A number formatted to \<open>f\<close> decimal places: the sign, the decimal digits of the integer
  part, and for \<open>f > 0\<close> a point and exactly \<open>f\<close> digits, the whole denoting the
  multiple of \<open>10\<^bsup>-f\<^esup>\<close> nearest to the number (the one of larger magnitude of two).
\<close>

fun last_digits :: "nat \<Rightarrow> int \<Rightarrow> string" where
  "last_digits 0 n = []"
| "last_digits (Suc f) n = last_digits f (n div 10) @ [digit_char (n mod 10)]"

definition fixed_decimal :: "rat \<Rightarrow> nat \<Rightarrow> string" where
  "fixed_decimal x f =
     (let n = \<lfloor>\<bar>x\<bar> * 10 ^ f + 1 / 2\<rfloor>
      in (if x < 0 then ''-'' else []) @ digits (n div 10 ^ f)
         @ (if f = 0 then [] else ''.'' @ last_digits f n))"

text \<open>
  The example of the specification's section 8: the predictions of its successful
  response, with the water requirement left open, and a page that shows an earlier
  result. The numbers of the example are the binary64 numbers nearest to 5.678 and 12.3.
\<close>

definition example_water :: rat where
  "example_water = 6392859671052419 / 1125899906842624"

definition example_fertilizer :: rat where
  "example_fertilizer = 3462142213541069 / 281474976710656"

definition example_predictions :: "number \<Rightarrow> jsval" where
  "example_predictions water =
     JObj [(''water_requirement_mm_per_day'', JNum water),
           (''fertilizer_requirement_kg_per_week'', JNum (Finite example_fertilizer)),
           (''expected_yield_kg_per_hectare'', JNum (Finite 4500)),
           (''irrigation_recommendation'', JStr ''Drip irrigation''),
           (''fertilizer_recommendation'', JStr ''Apply nitrogen''),
           (''yield_optimization_tips'', JArr [JStr ''Tip A'', JStr ''Tip B''])]"

definition example_page :: page where
  "example_page =
     \<lparr>farmForm =
        [\<lparr>default_value = ''North'', current_value = ''South''\<rparr>,
         \<lparr>default_value = ''6.5'', current_value = ''7.2''\<rparr>],
      loadingIndicator_display = ''none'',
      results_display = ''block'',
      waterResult = ''1.00'',
      fertilizerResult = ''2.00'',
      yieldResult = ''3'',
      waterRec = ''Sprinkler'',
      fertilizerRec = ''None needed'',
      tipsList = [Element ''li'' ''An earlier tip''],
      effects = []\<rparr>"

text \<open>The two halves of the body of \<^const>\<open>displayResults\<close> before the results are shown.\<close>

abbreviation texts :: "jsval \<Rightarrow> statement list" where
  "texts predictions \<equiv> update_values predictions @ update_recommendations predictions"

abbreviation writes :: "jsval \<Rightarrow> statement list" where
  "writes predictions \<equiv>
     update_values predictions @ update_recommendations predictions @ [update_tips predictions]"

section \<open>Properties of the payload\<close>

lemma entry_value_cases:
  "entry_value key val = (if key \<in> text_fields then PStr val else PNum (parseFloat val))"
  by (simp add: entry_value_def text_fields_def)

lemma own_property_set_property:
  "own_property (set_property data key v) k =
     (if key = ''__proto__'' then own_property data k
      else if k = key then Some v else own_property data k)"
  by (simp add: own_property_def set_property_def update_conv')

lemma own_property_collect:
  "own_property (collect entries data) k =
     (if k = ''__proto__'' then own_property data k
      else case map_of (rev entries) k of
             Some val \<Rightarrow> Some (entry_value k val)
           | None \<Rightarrow> own_property data k)"
proof (induction entries arbitrary: data)
  case Nil
  then show ?case by simp
next
  case (Cons e entries)
  obtain key val where e: "e = (key, val)" by (cases e)
  show ?case
    by (simp add: e Cons.IH own_property_set_property map_add_def split: option.splits)
qed

lemma distinct_collect:
  "distinct (map fst data) \<Longrightarrow> distinct (map fst (collect entries data))"
proof (induction entries arbitrary: data)
  case Nil
  then show ?case by simp
next
  case (Cons e entries)
  obtain key val where e: "e = (key, val)" by (cases e)
  have "distinct (map fst (set_property data key (entry_value key val)))"
    using Cons.prems by (simp add: set_property_def distinct_update)
  then show ?case by (simp add: e Cons.IH)
qed

lemma distinct_build_payload: "distinct (map fst (build_payload entries))"
  by (simp add: build_payload_def distinct_collect)

lemma map_of_rev_last:
  assumes "key \<notin> set (map fst after)"
  shows "map_of (rev (before @ (key, val) # after)) key = Some val"
proof -
  have "map_of (rev after) key = None"
    using assms by (simp add: map_of_eq_None_iff)
  then show ?thesis by (simp add: map_add_def)
qed

lemma parseFloat_abc: "parseFloat ''abc'' = NaN"
  by (simp add: parseFloat_def parse_unsigned_def is_white_space_def is_digit_def)

lemma parseFloat_7: "parseFloat ''7'' = Finite 7"
  by code_simp

lemma number_to_string_7: "number_to_string (Finite 7) = ''7''"
  by code_simp

subsection \<open>The text of the payload\<close>

lemma set_own_keys_order: "set (own_keys_order ps) = set ps"
  by (auto simp: own_keys_order_def)

lemma distinct_own_keys_order:
  assumes "distinct (map fst ps)"
  shows "distinct (map fst (own_keys_order ps))"
proof -
  from assms have d: "distinct ps" and i: "inj_on fst (set ps)"
    by (simp_all add: distinct_map)
  let ?P = "\<lambda>(k, v). array_index k \<noteq> (None :: int option)"
  let ?Q = "\<lambda>(k, v). array_index k = (None :: int option)"
  have a: "distinct (map fst (sort_key (\<lambda>(k, v). case array_index k of Some i \<Rightarrow> i | None \<Rightarrow> 0)
             (filter ?P ps)))"
    using d i by (simp add: distinct_map inj_on_def)
  have b: "distinct (map fst (filter ?Q ps))"
    using d i by (simp add: distinct_map inj_on_def)
  have c: "fst ` set (filter ?P ps) \<inter> fst ` set (filter ?Q ps) = {}"
    by auto
  show ?thesis
    unfolding own_keys_order_def using a b c by simp
qed

lemma map_of_own_keys_order:
  assumes "distinct (map fst ps)"
  shows "map_of (own_keys_order ps) = map_of ps"
  using assms distinct_own_keys_order [OF assms] set_own_keys_order [of ps]
  by (simp add: map_of_inject_set)

lemma map_of_members_in_order:
  assumes "distinct (map fst data)"
  shows "map_of (members_in_order data) key = map_option json_value (own_property data key)"
  by (simp add: members_in_order_def map_of_map map_of_own_keys_order [OF assms]
        own_property_def)

subsection \<open>Claim C1\<close>

text \<open>
  Claim C1, as amended. Take a field of the form, that is an entry \<open>(key, val)\<close> of the
  entry list, that is the last entry of its name and whose name is not \<^verbatim>\<open>__proto__\<close>. If
  the name is not in the text-field set, the payload holds under that name the number
  \<^verbatim>\<open>parseFloat\<close> gives for the field's string; if the name is in the set, it holds the
  string unchanged. When no name is repeated this is every field but one named
  \<^verbatim>\<open>__proto__\<close>.
\<close>

theorem payload_value_of_field:
  assumes "entries = before @ (key, val) # after"
    and "key \<notin> set (map fst after)"
    and "key \<noteq> ''__proto__''"
  shows "own_property (build_payload entries) key =
           Some (if key \<in> text_fields then PStr val else PNum (parseFloat val))"
proof -
  have "map_of (rev entries) key = Some val"
    unfolding assms(1) using assms(2) by (rule map_of_rev_last)
  then show ?thesis
    using assms(3) by (simp add: build_payload_def own_property_collect entry_value_cases)
qed

theorem payload_value_of_field_witness:
  "own_property (build_payload [(''region'', ''North''), (''soil_ph'', ''6.5'')]) ''soil_ph''
     = Some (PNum (parseFloat ''6.5''))
   \<and> own_property (build_payload [(''region'', ''North''), (''soil_ph'', ''6.5'')]) ''region''
     = Some (PStr ''North'')"
  using payload_value_of_field [of "[(''region'', ''North''), (''soil_ph'', ''6.5'')]"
          "[(''region'', ''North'')]" "''soil_ph''" "''6.5''" "[]"]
        payload_value_of_field [of "[(''region'', ''North''), (''soil_ph'', ''6.5'')]"
          "[]" "''region''" "''North''" "[(''soil_ph'', ''6.5'')]"]
  by (simp add: text_fields_def)

text \<open>
  Claim C1 as it is written fails in two places. With two fields of one name the payload
  holds the value of the second, not of the first (here for a text field); and a field
  named \<^verbatim>\<open>__proto__\<close> leaves nothing in the payload.
\<close>

theorem payload_value_of_field_counterexample:
  "own_property (build_payload [(''region'', ''North''), (''region'', ''South'')]) ''region''
     \<noteq> Some (PStr ''North'')
   \<and> own_property (build_payload [(''__proto__'', ''6.5'')]) ''__proto__'' = None"
  by (simp add: build_payload_def set_property_def own_property_def entry_value_def)

subsection \<open>Claim C10\<close>

text \<open>
  Claim C10, as amended. For every entry list, with repeated names or not, and every
  name other than \<^verbatim>\<open>__proto__\<close>: the payload maps the name to the coerced value of the
  last entry of that name (and has no property of that name when there is no such
  entry), the text sent has under that name the text of this one value, and no name
  occurs twice in the payload, so that an earlier value of a repeated name is not sent.
\<close>

theorem payload_last_entry_wins:
  assumes "key \<noteq> ''__proto__''"
  shows "own_property (build_payload entries) key
           = map_option (entry_value key) (map_of (rev entries) key)
       \<and> map_of (members_in_order (build_payload entries)) key
           = map_option (\<lambda>val. json_value (entry_value key val)) (map_of (rev entries) key)
       \<and> distinct (map fst (build_payload entries))"
proof (intro conjI)
  show 1: "own_property (build_payload entries) key
           = map_option (entry_value key) (map_of (rev entries) key)"
    using assms
    by (simp add: build_payload_def own_property_collect)
       (simp add: own_property_def split: option.splits)
  show "map_of (members_in_order (build_payload entries)) key
           = map_option (\<lambda>val. json_value (entry_value key val)) (map_of (rev entries) key)"
    by (simp add: map_of_members_in_order distinct_build_payload 1 option.map_comp comp_def)
  show "distinct (map fst (build_payload entries))"
    by (rule distinct_build_payload)
qed

theorem payload_last_entry_wins_witness:
  "own_property (build_payload [(''region'', ''North''), (''region'', ''South'')]) ''region''
     = Some (PStr ''South'')
   \<and> map_of (members_in_order (build_payload [(''region'', ''North''), (''region'', ''South'')]))
       ''region'' = Some (quote_json ''South'')
   \<and> distinct (map fst (build_payload [(''region'', ''North''), (''region'', ''South'')]))"
  using payload_last_entry_wins [of "''region''" "[(''region'', ''North''), (''region'', ''South'')]"]
  by (simp add: entry_value_def json_value_def)

text \<open>
  Claim C10 as it is written fails for the name \<^verbatim>\<open>__proto__\<close>: the payload does not map
  it to the value of the last entry, nor to any value, and nothing is sent for it.
\<close>

theorem payload_last_entry_wins_counterexample:
  "own_property (build_payload [(''__proto__'', ''1''), (''__proto__'', ''2'')]) ''__proto__''
     = None
   \<and> JSON_stringify (build_payload [(''__proto__'', ''1''), (''__proto__'', ''2'')]) = ''{}''"
  by (simp add: build_payload_def set_property_def own_property_def JSON_stringify_def
        members_in_order_def own_keys_order_def)

subsection \<open>Claim C6\<close>

text \<open>
  Claim C6, as amended. Building the payload is a total function of the entry list: no
  entry makes it fail. When a field that is coerced to a number (the last of its name,
  not named \<^verbatim>\<open>__proto__\<close>) holds a string that \<^verbatim>\<open>parseFloat\<close> reads as \<^verbatim>\<open>NaN\<close>, the payload
  holds \<^verbatim>\<open>NaN\<close> under that name, and the text sent to the server has \<^verbatim>\<open>null\<close> under that
  name, not a not-a-number value.
\<close>

theorem nan_sent_as_null:
  assumes "entries = before @ (key, val) # after"
    and "key \<notin> set (map fst after)"
    and "key \<noteq> ''__proto__''"
    and "key \<notin> text_fields"
    and "parseFloat val = NaN"
  shows "own_property (build_payload entries) key = Some (PNum NaN)
       \<and> map_of (members_in_order (build_payload entries)) key = Some ''null''"
proof -
  have "map_of (rev entries) key = Some val"
    unfolding assms(1) using assms(2) by (rule map_of_rev_last)
  then have 1: "own_property (build_payload entries) key = Some (PNum NaN)"
    using assms(3,4,5) by (simp add: build_payload_def own_property_collect entry_value_cases)
  then show ?thesis
    by (simp add: map_of_members_in_order distinct_build_payload json_value_def)
qed

theorem nan_sent_as_null_witness:
  "parseFloat ''abc'' = NaN
   \<and> own_property (build_payload [(''soil_ph'', ''abc'')]) ''soil_ph'' = Some (PNum NaN)
   \<and> map_of (members_in_order (build_payload [(''soil_ph'', ''abc'')])) ''soil_ph''
       = Some ''null''"
  using nan_sent_as_null [of "[(''soil_ph'', ''abc'')]" "[]" "''soil_ph''" "''abc''" "[]"]
  by (simp add: parseFloat_abc text_fields_def)

text \<open>
  Claim C6 as it is written fails: for the form with the one field \<^verbatim>\<open>soil_ph\<close> holding
  \<^verbatim>\<open>abc\<close>, the body of the request is the text \<^verbatim>\<open>{"soil_ph":null}\<close>. A field named
  \<^verbatim>\<open>__proto__\<close> is not in the body at all, and of two fields of one name the body has the
  value of the second: \<^verbatim>\<open>{"soil_ph":7}\<close> here.
\<close>

theorem nan_sent_as_null_counterexample:
  "parseFloat ''abc'' = NaN
   \<and> JSON_stringify (build_payload [(''soil_ph'', ''abc'')])
       = ''{'' @ [CHR 0x22] @ ''soil_ph'' @ [CHR 0x22] @ '':null}''
   \<and> JSON_stringify (build_payload [(''__proto__'', ''abc'')]) = ''{}''
   \<and> JSON_stringify (build_payload [(''soil_ph'', ''abc''), (''soil_ph'', ''7'')])
       = ''{'' @ [CHR 0x22] @ ''soil_ph'' @ [CHR 0x22] @ '':7}''"
  by (simp add: parseFloat_abc parseFloat_7 number_to_string_7 build_payload_def
        set_property_def entry_value_def JSON_stringify_def members_in_order_def
        own_keys_order_def array_index_def is_digit_def json_value_def quote_json_def
        quote_char_def)

section \<open>Properties of statements and blocks\<close>

lemma effects_emit: "effects (emit e p) = effects p @ [e]"
  by (simp add: emit_def)

lemma block_append:
  "block (xs @ ys) p =
     (case block xs p of (p', None) \<Rightarrow> block ys p' | (p', Some e) \<Rightarrow> (p', Some e))"
  by (induction xs arbitrary: p) (simp_all split: prod.splits option.splits)

text \<open>A part of the page that no statement of a block writes is the same after the block.\<close>

lemma block_invariant:
  assumes "\<And>s q. s \<in> set ss \<Longrightarrow> f (fst (s q)) = f q"
  shows "f (fst (block ss p)) = f p"
  using assms
proof (induction ss arbitrary: p)
  case Nil
  then show ?case by simp
next
  case (Cons s ss)
  obtain p' r where sp: "s p = (p', r)" by (cases "s p")
  have 1: "f p' = f p" using Cons.prems [of s p] sp by simp
  show ?case
  proof (cases r)
    case None
    have "f (fst (block ss p')) = f p'"
      by (rule Cons.IH) (simp add: Cons.prems)
    then show ?thesis by (simp add: sp None 1)
  next
    case (Some e)
    then show ?thesis by (simp add: sp 1)
  qed
qed

text \<open>Whether a block throws does not depend on the page when none of its statements does.\<close>

lemma block_outcome:
  assumes "\<And>s p q. s \<in> set ss \<Longrightarrow> snd (s p) = snd (s q)"
  shows "snd (block ss p) = snd (block ss q)"
  using assms
proof (induction ss arbitrary: p q)
  case Nil
  then show ?case by simp
next
  case (Cons s ss)
  obtain p' r where sp: "s p = (p', r)" by (cases "s p")
  obtain q' r' where sq: "s q = (q', r')" by (cases "s q")
  have rr: "r' = r" using Cons.prems [of s p q] sp sq by simp
  show ?case
  proof (cases r)
    case None
    have "snd (block ss p') = snd (block ss q')"
      by (rule Cons.IH) (simp add: Cons.prems)
    then show ?thesis by (simp add: sp sq rr None)
  next
    case (Some e)
    then show ?thesis by (simp add: sp sq rr)
  qed
qed

lemma assign_invariant:
  assumes "\<And>v q. f (store v q) = f q"
  shows "f (fst (assign rhs store p)) = f p"
  by (cases rhs) (simp_all add: assign_def assms)

lemma assign_outcome: "snd (assign rhs store p) = snd (assign rhs store q)"
  by (cases rhs) (simp_all add: assign_def)

section \<open>Properties of \<^verbatim>\<open>displayResults\<close>\<close>

lemma append_tips_invariant:
  assumes "\<And>q ns. f (q\<lparr>tipsList := ns\<rparr>) = f q"
  shows "f (fst (append_tips tips p)) = f p"
  by (induction tips arbitrary: p) (simp_all add: assms split: sum.splits)

lemma update_tips_invariant:
  assumes "\<And>q ns. f (q\<lparr>tipsList := ns\<rparr>) = f q"
  shows "f (fst (update_tips predictions p)) = f p"
proof -
  have "f (fst (forEach_tip v q)) = f q" for v q
    by (cases v) (simp_all add: forEach_tip_def append_tips_invariant [of f, OF assms])
  then show ?thesis
    by (cases "get_member predictions ''yield_optimization_tips''")
       (simp_all add: update_tips_def Let_def assms)
qed

lemma writes_invariant:
  assumes "\<And>q t. f (q\<lparr>waterResult := t\<rparr>) = f q"
    and "\<And>q t. f (q\<lparr>fertilizerResult := t\<rparr>) = f q"
    and "\<And>q t. f (q\<lparr>yieldResult := t\<rparr>) = f q"
    and "\<And>q t. f (q\<lparr>waterRec := t\<rparr>) = f q"
    and "\<And>q t. f (q\<lparr>fertilizerRec := t\<rparr>) = f q"
    and "\<And>q ns. f (q\<lparr>tipsList := ns\<rparr>) = f q"
  shows "f (fst (block (writes predictions) p)) = f p"
proof (rule block_invariant)
  fix s q
  assume "s \<in> set (writes predictions)"
  then consider "s \<in> set (update_values predictions)"
    | "s \<in> set (update_recommendations predictions)"
    | "s = update_tips predictions"
    by auto
  then show "f (fst (s q)) = f q"
  proof cases
    case 1
    then show ?thesis
      by (auto simp: update_values_def assms(1-3) intro!: assign_invariant)
  next
    case 2
    then show ?thesis
      by (auto simp: update_recommendations_def assms(4,5) intro!: assign_invariant)
  next
    case 3
    then show ?thesis
      by (simp add: update_tips_invariant [of f, OF assms(6)])
  qed
qed

lemma block_show_results:
  "block show_results p =
     (emit (ScrollIntoView ''results'' ''smooth'') (p\<lparr>results_display := ''block''\<rparr>), None)"
  by (simp add: show_results_def)

text \<open>
  The two ways \<^const>\<open>displayResults\<close> ends: every write completes and the results are
  shown, or a write throws and the rest is not run.
\<close>

lemma displayResults_cases:
  obtains (completed) p1 where
      "block (writes predictions) p = (p1, None)"
      "displayResults predictions p =
         (emit (ScrollIntoView ''results'' ''smooth'') (p1\<lparr>results_display := ''block''\<rparr>), None)"
  | (thrown) p1 e where
      "block (writes predictions) p = (p1, Some e)"
      "displayResults predictions p = (p1, Some e)"
proof -
  have D: "displayResults predictions p =
      (case block (writes predictions) p of
         (p', None) \<Rightarrow> block show_results p' | (p', Some e) \<Rightarrow> (p', Some e))"
    unfolding displayResults_def
    using block_append [of "writes predictions" show_results p] by simp
  obtain p1 r where b: "block (writes predictions) p = (p1, r)"
    by (cases "block (writes predictions) p")
  show thesis
  proof (cases r)
    case None
    with b D show thesis
      by (intro completed [of p1]) (simp_all add: show_results_def)
  next
    case (Some e)
    with b D show thesis
      by (intro thrown [of p1 e]) simp_all
  qed
qed

lemma displayResults_effects:
  "effects (fst (displayResults predictions p)) =
     (if snd (displayResults predictions p) = None
      then effects p @ [ScrollIntoView ''results'' ''smooth''] else effects p)"
proof -
  have keep: "effects p1 = effects p" if "block (writes predictions) p = (p1, r)" for p1 r
    using writes_invariant [of effects predictions p] that by simp
  show ?thesis
    by (cases predictions p rule: displayResults_cases) (simp_all add: keep effects_emit)
qed

section \<open>Properties of the submit handler\<close>

lemma submit_begin_state:
  "loadingIndicator_display (submit_begin formData p) = ''block''"
  "results_display (submit_begin formData p) = ''none''"
  "effects (submit_begin formData p) =
     effects p @ [PreventDefault,
       Fetch \<lparr>url = ''/api/predict'', http_method = ''POST'',
              headers = [(''Content-Type'', ''application/json'')],
              body = JSON_stringify (build_payload formData)\<rparr>]"
  by (simp_all add: submit_begin_def emit_def Let_def)

lemma get_member_object:
  "get_member (JObj members) name =
     Inr (case map_of members name of None \<Rightarrow> JUndefined | Some w \<Rightarrow> w)"
  by (simp add: get_member_def)

lemma try_block_effects:
  "\<exists>es. effects (fst (try_block out q)) = effects q @ es"
proof (cases out)
  case (Parsed result)
  show ?thesis
  proof (cases "get_member result ''success''")
    case (Inl e)
    with Parsed show ?thesis by (simp add: try_block_def)
  next
    case (Inr s)
    show ?thesis
    proof (cases "truthy s")
      case True
      show ?thesis
      proof (cases "get_member result ''predictions''")
        case (Inl e)
        with Parsed Inr True show ?thesis by (simp add: try_block_def)
      next
        case pr: (Inr predictions)
        have "try_block out q = displayResults predictions q"
          using Parsed Inr True pr by (simp add: try_block_def)
        then show ?thesis by (simp add: displayResults_effects)
      qed
    next
      case False
      with Parsed Inr show ?thesis
        by (cases "then_call (get_member result ''error'') to_string")
           (simp_all add: try_block_def alert_def effects_emit)
    qed
  qed
qed (simp_all add: try_block_def)

lemma submit_resume_effects:
  "\<exists>es. effects (submit_resume out type_error_message q) = effects q @ es"
proof -
  obtain p1 thrown where t: "try_block out q = (p1, thrown)"
    by (cases "try_block out q")
  obtain es where "effects p1 = effects q @ es"
    using try_block_effects [of out q] t by auto
  then show ?thesis
    by (cases thrown) (simp_all add: submit_resume_def t alert_def effects_emit)
qed

subsection \<open>Claim C7\<close>

text \<open>
  Claim C7. For every submission (every entry list, every answer of the network, every
  page), the first thing the handler does is to prevent the default action of the
  event: of the effects it adds to those of the page, \<^const>\<open>PreventDefault\<close> is the first,
  before the request is sent and before whatever the handler does when the answer is
  there. The native submission of the form is the default action so prevented.
\<close>

theorem default_action_prevented_first:
  "effects (submit_begin formData p) =
     effects p @ [PreventDefault,
       Fetch \<lparr>url = ''/api/predict'', http_method = ''POST'',
              headers = [(''Content-Type'', ''application/json'')],
              body = JSON_stringify (build_payload formData)\<rparr>]
   \<and> (\<exists>rest. effects (submit_handler formData out type_error_message p)
                = effects p @ PreventDefault # rest)"
proof -
  obtain es where "effects (submit_handler formData out type_error_message p) =
      effects (submit_begin formData p) @ es"
    using submit_resume_effects [of out type_error_message "submit_begin formData p"]
    by (auto simp: submit_handler_def)
  then show ?thesis by (simp add: submit_begin_state)
qed

theorem default_action_prevented_first_witness:
  "hd (effects (submit_handler [(''region'', ''North'')] (Rejected ''Failed to fetch'') []
         example_page)) = PreventDefault"
  using default_action_prevented_first [of "[(''region'', ''North'')]" example_page
          "Rejected ''Failed to fetch''" "[]"]
  by (auto simp: example_page_def)

subsection \<open>Claim C4\<close>

text \<open>
  Claim C4. While the handler waits for the answer the loading indicator is shown
  (\<^verbatim>\<open>display\<close> is \<^verbatim>\<open>block\<close>). Whatever the answer is, a rejection, a body that cannot be
  parsed or any parsed value, and whether the rendering completes or throws, the last
  step of the handler hides it: after the handler its \<^verbatim>\<open>display\<close> is \<^verbatim>\<open>none\<close>.
\<close>

theorem loading_indicator_hidden_finally:
  "loadingIndicator_display (submit_begin formData p) = ''block''
   \<and> loadingIndicator_display (submit_handler formData out type_error_message p) = ''none''"
  by (simp add: submit_begin_state submit_handler_def submit_resume_def
        split: prod.splits option.splits)

theorem loading_indicator_hidden_finally_witness:
  "loadingIndicator_display
     (submit_handler [] (Parsed (JObj [(''success'', JBool True), (''predictions'', JNull)])) []
        example_page) = ''none''
   \<and> loadingIndicator_display
     (submit_handler [] (Parsed (JObj [(''success'', JBool False), (''error'', JStr ''bad input'')]))
        [] example_page) = ''none''
   \<and> loadingIndicator_display
     (submit_handler [] (Unparseable ''Unexpected token'') [] example_page) = ''none''"
  using loading_indicator_hidden_finally [of "[]" example_page
          "Parsed (JObj [(''success'', JBool True), (''predictions'', JNull)])" "[]"]
        loading_indicator_hidden_finally [of "[]" example_page
          "Parsed (JObj [(''success'', JBool False), (''error'', JStr ''bad input'')])" "[]"]
        loading_indicator_hidden_finally [of "[]" example_page
          "Unparseable ''Unexpected token''" "[]"]
  by simp

subsection \<open>Claim C3\<close>

text \<open>
  Claim C3. When the network call rejects, or the body of the response cannot be parsed
  as JSON, with an error of message \<open>m\<close>: the handler does nothing after the request but
  alert the text \<^verbatim>\<open>Failed to get predictions: \<close> followed by \<open>m\<close> and hide the loading
  indicator. The alert is the one effect after the request, and the results region,
  hidden before the request, is hidden after the handler.
\<close>

theorem transport_failure_alert:
  "submit_handler formData (Rejected m) type_error_message p =
     (alert (''Failed to get predictions: '' @ m) (submit_begin formData p))
       \<lparr>loadingIndicator_display := ''none''\<rparr>
   \<and> submit_handler formData (Unparseable m) type_error_message p =
     (alert (''Failed to get predictions: '' @ m) (submit_begin formData p))
       \<lparr>loadingIndicator_display := ''none''\<rparr>
   \<and> effects (submit_handler formData (Rejected m) type_error_message p) =
       effects (submit_begin formData p) @ [Alert (''Failed to get predictions: '' @ m)]
   \<and> effects (submit_handler formData (Unparseable m) type_error_message p) =
       effects (submit_begin formData p) @ [Alert (''Failed to get predictions: '' @ m)]
   \<and> results_display (submit_handler formData (Rejected m) type_error_message p) = ''none''
   \<and> results_display (submit_handler formData (Unparseable m) type_error_message p) = ''none''"
  by (simp add: submit_handler_def submit_resume_def try_block_def message_def alert_def
        emit_def submit_begin_state)

theorem transport_failure_alert_witness:
  "effects (submit_handler [] (Rejected ''Failed to fetch'') [] example_page) =
     [PreventDefault,
      Fetch \<lparr>url = ''/api/predict'', http_method = ''POST'',
             headers = [(''Content-Type'', ''application/json'')], body = ''{}''\<rparr>,
      Alert ''Failed to get predictions: Failed to fetch'']
   \<and> results_display (submit_handler [] (Rejected ''Failed to fetch'') [] example_page) = ''none''"
  using transport_failure_alert [of "[]" "''Failed to fetch''" "[]" example_page]
  by (simp add: submit_begin_state alert_def emit_def example_page_def build_payload_def JSON_stringify_def
        members_in_order_def own_keys_order_def)

subsection \<open>Claim C2\<close>

text \<open>
  Claim C2. Let the parsed response be an object, so that reading its \<^verbatim>\<open>success\<close>,
  \<^verbatim>\<open>predictions\<close> and \<^verbatim>\<open>error\<close> members gives values (\<open>get_member_object\<close>; a member that
  is missing reads as \<^verbatim>\<open>undefined\<close>). If \<^verbatim>\<open>success\<close> is truthy, what the handler does in its
  \<^verbatim>\<open>try\<close> block is the rendering of the \<^verbatim>\<open>predictions\<close> member. If \<^verbatim>\<open>success\<close> is falsy and
  the \<^verbatim>\<open>error\<close> member has the text \<open>t\<close>, the handler alerts \<^verbatim>\<open>Error: \<close> followed by \<open>t\<close> and
  does nothing else but hide the loading indicator: the rendering is not run, the alert
  is the one effect after the request, and the results region stays hidden.
\<close>

theorem response_object_handling:
  assumes "get_member result ''success'' = Inr success"
    and "get_member result ''predictions'' = Inr predictions"
    and "get_member result ''error'' = Inr err"
  shows "(truthy success \<longrightarrow>
            try_block (Parsed result) q = displayResults predictions q)
       \<and> (\<not> truthy success \<longrightarrow> to_string err = Inr t \<longrightarrow>
            try_block (Parsed result) q = (alert (''Error: '' @ t) q, None)
          \<and> submit_handler formData (Parsed result) type_error_message p =
              (alert (''Error: '' @ t) (submit_begin formData p))
                \<lparr>loadingIndicator_display := ''none''\<rparr>
          \<and> effects (submit_handler formData (Parsed result) type_error_message p) =
              effects (submit_begin formData p) @ [Alert (''Error: '' @ t)]
          \<and> results_display (submit_handler formData (Parsed result) type_error_message p) = ''none'')"
  using assms
  by (simp add: try_block_def then_call_def submit_handler_def submit_resume_def alert_def
        emit_def submit_begin_state)

theorem response_object_handling_witness:
  "get_member (JObj [(''success'', JBool False), (''error'', JStr ''bad input'')]) ''success''
     = Inr (JBool False)
   \<and> \<not> truthy (JBool False)
   \<and> to_string (JStr ''bad input'') = Inr ''bad input''
   \<and> effects (submit_handler []
        (Parsed (JObj [(''success'', JBool False), (''error'', JStr ''bad input'')])) []
        example_page)
     = [PreventDefault,
        Fetch \<lparr>url = ''/api/predict'', http_method = ''POST'',
               headers = [(''Content-Type'', ''application/json'')], body = ''{}''\<rparr>,
        Alert ''Error: bad input'']
   \<and> results_display (submit_handler []
        (Parsed (JObj [(''success'', JBool False), (''error'', JStr ''bad input'')])) []
        example_page) = ''none''
   \<and> truthy (JBool True)
   \<and> try_block
        (Parsed (JObj [(''success'', JBool True),
                       (''predictions'', example_predictions (Finite example_water))]))
        example_page
     = displayResults (example_predictions (Finite example_water)) example_page"
  using response_object_handling
          [where result = "JObj [(''success'', JBool False), (''error'', JStr ''bad input'')]"
             and success = "JBool False" and predictions = JUndefined
             and err = "JStr ''bad input''" and t = "''bad input''" and formData = "[]"
             and type_error_message = "[]" and p = example_page]
        response_object_handling
          [where result = "JObj [(''success'', JBool True),
                                 (''predictions'', example_predictions (Finite example_water))]"
             and success = "JBool True"
             and predictions = "example_predictions (Finite example_water)"
             and err = JUndefined and q = example_page]
  by (simp add: get_member_def truthy_def submit_begin_state example_page_def alert_def
        emit_def build_payload_def JSON_stringify_def members_in_order_def own_keys_order_def)

section \<open>Properties of \<^verbatim>\<open>resetForm\<close>\<close>

text \<open>
  Claim C8. In every state of the page, whatever was sent or received before, after
  \<^verbatim>\<open>resetForm\<close> every control of the form holds its default value (the controls and
  their defaults are the same), the results region is hidden, and nothing else has
  changed; in particular no effect has been added, so no request was made.
\<close>

theorem resetForm_effect:
  "list_all (\<lambda>c. current_value c = default_value c) (farmForm (resetForm p))
   \<and> map default_value (farmForm (resetForm p)) = map default_value (farmForm p)
   \<and> results_display (resetForm p) = ''none''
   \<and> effects (resetForm p) = effects p
   \<and> resetForm p = p\<lparr>farmForm := farmForm (resetForm p), results_display := ''none''\<rparr>"
  by (simp add: resetForm_def form_reset_def list_all_iff comp_def)

theorem resetForm_effect_witness:
  "map current_value (farmForm (resetForm example_page)) = [''North'', ''6.5'']
   \<and> results_display (resetForm example_page) = ''none''
   \<and> effects (resetForm (submit_handler [] (Rejected ''Failed to fetch'') [] example_page))
       = effects (submit_handler [] (Rejected ''Failed to fetch'') [] example_page)"
  using resetForm_effect [of example_page]
        resetForm_effect [of "submit_handler [] (Rejected ''Failed to fetch'') [] example_page"]
  by (simp add: example_page_def resetForm_def form_reset_def)

section \<open>Fixed-decimal text\<close>

lemma digit_char_0: "digit_char 0 = CHR ''0''"
  by code_simp

lemma digits_0: "digits 0 = ''0''"
  by (simp add: digits.simps [of 0] digit_char_0)

lemma length_last_digits: "length (last_digits f n) = f"
  by (induction f arbitrary: n) simp_all

lemma last_digits_zero: "last_digits f 0 = replicate f CHR ''0''"
  by (induction f) (simp_all add: digit_char_0 replicate_append_same)

lemma digits_upper: "0 \<le> n \<Longrightarrow> n < 10 ^ length (digits n)"
proof (induction n rule: digits.induct)
  case (1 n)
  show ?case
  proof (cases "n < 10")
    case True
    then show ?thesis by (simp add: digits.simps [of n])
  next
    case False
    then have "n div 10 < 10 ^ length (digits (n div 10))"
      using 1 by simp
    then have "n < 10 * 10 ^ length (digits (n div 10))"
      by linarith
    then show ?thesis using False by (simp add: digits.simps [of n])
  qed
qed

lemma digits_lower: "1 \<le> n \<Longrightarrow> 10 ^ (length (digits n) - 1) \<le> n"
proof (induction n rule: digits.induct)
  case (1 n)
  show ?case
  proof (cases "n < 10")
    case True
    then show ?thesis using 1(2) by (simp add: digits.simps [of n])
  next
    case False
    then have "10 ^ (length (digits (n div 10)) - 1) \<le> n div 10"
      using 1 by simp
    moreover have "length (digits (n div 10)) \<ge> 1"
      by (subst digits.simps) simp
    ultimately have "10 ^ length (digits (n div 10)) \<le> 10 * (n div 10)"
      by (cases "length (digits (n div 10))") simp_all
    then have "10 ^ length (digits (n div 10)) \<le> n"
      by linarith
    then show ?thesis using False by (simp add: digits.simps [of n])
  qed
qed

lemma digits_split:
  "10 ^ f \<le> n \<Longrightarrow> digits n = digits (n div 10 ^ f) @ last_digits f n"
proof (induction f arbitrary: n)
  case 0
  then show ?case by simp
next
  case (Suc f)
  have "(1::int) \<le> 10 ^ f"
    by simp
  with Suc.prems have big: "\<not> n < 10"
    unfolding power_Suc by linarith
  from Suc.prems have "10 ^ f \<le> n div 10"
    by simp
  from Suc.IH [OF this]
  have "digits (n div 10) = digits (n div 10 div 10 ^ f) @ last_digits f (n div 10)" .
  moreover have "n div 10 div 10 ^ f = n div 10 ^ Suc f"
    by (simp add: zdiv_zmult2_eq)
  ultimately show ?case
    using big by (simp add: digits.simps [of n])
qed

lemma digits_small:
  "0 \<le> n \<Longrightarrow> n < 10 ^ f \<Longrightarrow> 0 < f \<Longrightarrow>
   replicate (f - length (digits n)) CHR ''0'' @ digits n = last_digits f n"
proof (induction f arbitrary: n)
  case 0
  then show ?case by simp
next
  case (Suc f)
  show ?case
  proof (cases "n < 10")
    case True
    with Suc.prems show ?thesis
      by (simp add: digits.simps [of n] last_digits_zero)
  next
    case False
    with Suc.prems have 1: "0 \<le> n div 10" "n div 10 < 10 ^ f"
      by simp_all
    with False have "0 < f"
      by (cases f) simp_all
    from Suc.IH [OF 1 this] show ?thesis
      using False by (simp add: digits.simps [of n] Suc_diff_le)
  qed
qed

text \<open>
  Below \<open>10\<^sup>2\<^sup>1\<close>, \<^verbatim>\<open>toFixed\<close> is the formatting to a fixed number of decimal places: the
  text has exactly \<open>f\<close> digits after the point, and the integer it spells without the
  point is within one half of \<open>|x| \<times> 10\<^sup>f\<close>.
\<close>

lemma toFixed_fixed_decimal:
  assumes "\<bar>q\<bar> < 10 ^ 21"
  shows "toFixed (Finite q) f = fixed_decimal q f"
proof -
  define n where "n = \<lfloor>\<bar>q\<bar> * 10 ^ f + 1 / 2\<rfloor>"
  define s where "s = (if q < 0 then ''-'' else [])"
  define k where "k = length (digits n)"
  have n0: "0 \<le> n"
    unfolding n_def by (simp add: zero_le_floor)
  have m: "(if n = 0 then ''0'' else digits n) = digits n"
    by (simp add: digits_0)
  have tf: "toFixed (Finite q) f =
      s @ (if f \<noteq> 0 then
             (let m' = (if k \<le> f then replicate (f + 1 - k) CHR ''0'' @ digits n else digits n)
              in take (length m' - f) m' @ ''.'' @ drop (length m' - f) m')
           else digits n)"
    using assms by (simp add: toFixed_def Let_def m flip: n_def s_def k_def)
  have fd: "fixed_decimal q f =
      s @ digits (n div 10 ^ f) @ (if f = 0 then [] else ''.'' @ last_digits f n)"
    by (simp add: fixed_decimal_def Let_def flip: n_def s_def)
  show ?thesis
  proof (cases "f = 0")
    case True
    show ?thesis
      unfolding tf fd using True by simp
  next
    case False
    show ?thesis
    proof (cases "k \<le> f")
      case True
      have "n < 10 ^ k"
        unfolding k_def using n0 by (rule digits_upper)
      also have "\<dots> \<le> 10 ^ f"
        using True by (simp add: power_increasing)
      finally have small: "n < 10 ^ f" .
      then have d: "n div 10 ^ f = 0"
        using n0 by simp
      have l: "replicate (f - k) CHR ''0'' @ digits n = last_digits f n"
        unfolding k_def using n0 small False by (simp add: digits_small)
      have r: "replicate (f + 1 - k) CHR ''0'' = CHR ''0'' # replicate (f - k) CHR ''0''"
        using True by (simp add: Suc_diff_le)
      show ?thesis
        using True False by (simp add: tf fd d digits_0 r l flip: k_def)
    next
      case False
      with \<open>f \<noteq> 0\<close> have "n \<noteq> 0"
        by (auto simp: k_def digits_0)
      with n0 have "1 \<le> n" by simp
      then have "10 ^ (k - 1) \<le> n"
        unfolding k_def by (rule digits_lower)
      moreover have "(10::int) ^ f \<le> 10 ^ (k - 1)"
        using False by (simp add: power_increasing)
      ultimately have big: "10 ^ f \<le> n" by (rule order_trans [rotated])
      have sp: "digits n = digits (n div 10 ^ f) @ last_digits f n"
        using big by (rule digits_split)
      have len: "k - f = length (digits (n div 10 ^ f))"
        using arg_cong [OF sp, of length] by (simp add: k_def length_last_digits)
      have "take (k - f) (digits n) = digits (n div 10 ^ f)"
        and "drop (k - f) (digits n) = last_digits f n"
        by (subst sp, simp add: len)+
      then show ?thesis
        using False \<open>f \<noteq> 0\<close> by (simp add: tf fd flip: k_def)
    qed
  qed
qed

lemma fixed_decimal_nearest:
  "\<bar>of_int \<lfloor>\<bar>x\<bar> * 10 ^ f + 1 / 2\<rfloor> - \<bar>x\<bar> * 10 ^ f\<bar> \<le> (1 / 2 :: rat)"
  by linarith

lemma fixed_decimal_examples:
  "fixed_decimal example_water 2 = ''5.68''"
  "fixed_decimal example_fertilizer 2 = ''12.30''"
  "fixed_decimal 4500 0 = ''4500''"
  by code_simp+

lemma example_numbers:
  "to_double (5678 / 1000) = Finite example_water"
  "to_double (123 / 10) = Finite example_fertilizer"
  by code_simp+

lemma toFixed_large: "toFixed (Finite (10 ^ 21)) 2 = ''1e+21''"
  by code_simp

section \<open>Rendering\<close>

lemma append_tips_strings:
  "append_tips (map JStr tips) p =
     (p\<lparr>tipsList := tipsList p @ map (Element ''li'') tips\<rparr>, None)"
  by (induction tips arbitrary: p) (simp_all add: to_dom_string_def)

text \<open>
  The rendering of predictions that have the shape of the data model: three numbers,
  two strings and an array of strings.
\<close>

lemma displayResults_toFixed:
  assumes "get_member predictions ''water_requirement_mm_per_day'' = Inr (JNum water)"
    and "get_member predictions ''fertilizer_requirement_kg_per_week'' = Inr (JNum fertilizer)"
    and "get_member predictions ''expected_yield_kg_per_hectare'' = Inr (JNum yield)"
    and "get_member predictions ''irrigation_recommendation'' = Inr (JStr irrigation)"
    and "get_member predictions ''fertilizer_recommendation'' = Inr (JStr fertilization)"
    and "get_member predictions ''yield_optimization_tips'' = Inr (JArr (map JStr tips))"
  shows "displayResults predictions p =
           (p\<lparr>waterResult := toFixed water 2,
              fertilizerResult := toFixed fertilizer 2,
              yieldResult := toFixed yield 0,
              waterRec := irrigation,
              fertilizerRec := fertilization,
              tipsList := map (Element ''li'') tips,
              results_display := ''block'',
              effects := effects p @ [ScrollIntoView ''results'' ''smooth'']\<rparr>, None)"
proof -
  have v: "block (update_values predictions) q =
      (q\<lparr>waterResult := toFixed water 2, fertilizerResult := toFixed fertilizer 2,
         yieldResult := toFixed yield 0\<rparr>, None)" for q
    by (simp add: update_values_def assign_def then_call_def call_toFixed_def assms(1-3))
  have r: "block (update_recommendations predictions) q =
      (q\<lparr>waterRec := irrigation, fertilizerRec := fertilization\<rparr>, None)" for q
    by (simp add: update_recommendations_def assign_def then_call_def to_dom_string_def
          assms(4,5))
  have t: "update_tips predictions q = (q\<lparr>tipsList := map (Element ''li'') tips\<rparr>, None)"
    for q
    by (simp add: update_tips_def forEach_tip_def assms(6) append_tips_strings Let_def)
  show ?thesis
    by (simp add: displayResults_def block_append v r t block_show_results emit_def)
qed

lemma example_predictions_members:
  "get_member (example_predictions water) ''water_requirement_mm_per_day'' = Inr (JNum water)"
  "get_member (example_predictions water) ''fertilizer_requirement_kg_per_week''
     = Inr (JNum (Finite example_fertilizer))"
  "get_member (example_predictions water) ''expected_yield_kg_per_hectare''
     = Inr (JNum (Finite 4500))"
  "get_member (example_predictions water) ''irrigation_recommendation''
     = Inr (JStr ''Drip irrigation'')"
  "get_member (example_predictions water) ''fertilizer_recommendation''
     = Inr (JStr ''Apply nitrogen'')"
  "get_member (example_predictions water) ''yield_optimization_tips''
     = Inr (JArr (map JStr [''Tip A'', ''Tip B'']))"
  by (simp_all add: example_predictions_def get_member_def)

lemma example_numbers_bounded:
  "\<bar>example_water\<bar> < 10 ^ 21" "\<bar>example_fertilizer\<bar> < 10 ^ 21" "\<bar>4500 :: rat\<bar> < 10 ^ 21"
  by (simp_all add: example_water_def example_fertilizer_def)

subsection \<open>Claim C5\<close>

text \<open>
  Claim C5, as amended. Let the predictions have the shape of the data model: the three
  requirement members are numbers, the two recommendations are strings and the tips are
  an array of strings; and let the three numbers be finite and below \<open>10\<^sup>2\<^sup>1\<close> in
  magnitude. Then the rendering completes and leaves the page with: the water
  requirement formatted to 2 decimal places, the fertilizer requirement to 2 decimal
  places and the expected yield to 0 decimal places (\<^const>\<open>fixed_decimal\<close>, the nearest
  decimal numeral with that many digits after the point) in their elements; the two
  recommendations as they are; in the tips list, whatever it held before, exactly one
  \<^verbatim>\<open>li\<close> item per tip, in order, with the tip as its text; the results region visible;
  and the region scrolled into view. The witness is the example of the specification:
  the elements read \<^verbatim>\<open>5.68\<close>, \<^verbatim>\<open>12.30\<close> and \<^verbatim>\<open>4500\<close>, the tips are \<^verbatim>\<open>Tip A\<close> then \<^verbatim>\<open>Tip B\<close>.
\<close>

theorem displayResults_renders:
  assumes "get_member predictions ''water_requirement_mm_per_day'' = Inr (JNum (Finite water))"
    and "get_member predictions ''fertilizer_requirement_kg_per_week''
           = Inr (JNum (Finite fertilizer))"
    and "get_member predictions ''expected_yield_kg_per_hectare'' = Inr (JNum (Finite yield))"
    and "get_member predictions ''irrigation_recommendation'' = Inr (JStr irrigation)"
    and "get_member predictions ''fertilizer_recommendation'' = Inr (JStr fertilization)"
    and "get_member predictions ''yield_optimization_tips'' = Inr (JArr (map JStr tips))"
    and "\<bar>water\<bar> < 10 ^ 21" and "\<bar>fertilizer\<bar> < 10 ^ 21" and "\<bar>yield\<bar> < 10 ^ 21"
  shows "displayResults predictions p =
           (p\<lparr>waterResult := fixed_decimal water 2,
              fertilizerResult := fixed_decimal fertilizer 2,
              yieldResult := fixed_decimal yield 0,
              waterRec := irrigation,
              fertilizerRec := fertilization,
              tipsList := map (Element ''li'') tips,
              results_display := ''block'',
              effects := effects p @ [ScrollIntoView ''results'' ''smooth'']\<rparr>, None)"
proof -
  have "toFixed (Finite water) 2 = fixed_decimal water 2"
    and "toFixed (Finite fertilizer) 2 = fixed_decimal fertilizer 2"
    and "toFixed (Finite yield) 0 = fixed_decimal yield 0"
    using assms(7-9) by (simp_all only: toFixed_fixed_decimal)
  then show ?thesis
    using displayResults_toFixed [OF assms(1-6), of p] by (simp only:)
qed

theorem displayResults_renders_witness:
  "displayResults (example_predictions (Finite example_water)) example_page =
     (example_page
        \<lparr>waterResult := ''5.68'',
          fertilizerResult := ''12.30'',
          yieldResult := ''4500'',
          waterRec := ''Drip irrigation'',
          fertilizerRec := ''Apply nitrogen'',
          tipsList := [Element ''li'' ''Tip A'', Element ''li'' ''Tip B''],
          results_display := ''block'',
          effects := [ScrollIntoView ''results'' ''smooth'']\<rparr>, None)"
  using displayResults_renders
          [where predictions = "example_predictions (Finite example_water)"
             and water = example_water and fertilizer = example_fertilizer
             and yield = 4500 and irrigation = "''Drip irrigation''"
             and fertilization = "''Apply nitrogen''" and tips = "[''Tip A'', ''Tip B'']"
             and p = example_page]
  by (simp only: example_predictions_members example_numbers_bounded fixed_decimal_examples)
     (simp add: example_page_def)

text \<open>
  Claim C5 as it is written fails for a number that \<^verbatim>\<open>toFixed\<close> does not write with decimal
  places: with a water requirement of \<open>10\<^sup>2\<^sup>1\<close> the element reads \<^verbatim>\<open>1e+21\<close>.
\<close>

theorem displayResults_renders_counterexample:
  "waterResult (fst (displayResults (example_predictions (Finite (10 ^ 21))) example_page))
     = ''1e+21''"
  using displayResults_toFixed [OF example_predictions_members, of "Finite (10 ^ 21)" example_page]
        toFixed_large
  by simp

section \<open>The tips list\<close>

lemma texts_outcome:
  "snd (block (texts predictions) p) = snd (block (texts predictions) q)"
  by (rule block_outcome)
     (auto simp: update_values_def update_recommendations_def intro: assign_outcome)

lemma texts_tipsList: "tipsList (fst (block (texts predictions) p)) = tipsList p"
  by (rule block_invariant)
     (auto simp: update_values_def update_recommendations_def intro!: assign_invariant)

text \<open>The loop appends to the list, and what it appends does not depend on the page.\<close>

lemma append_tips_appends:
  "\<exists>ns. \<forall>p. tipsList (fst (append_tips tips p)) = tipsList p @ ns"
proof (induction tips)
  case Nil
  show ?case by simp
next
  case (Cons tip tips)
  then obtain ns where ns: "\<And>p. tipsList (fst (append_tips tips p)) = tipsList p @ ns"
    by blast
  show ?case
  proof (cases "to_dom_string tip")
    case (Inl e)
    then show ?thesis by (intro exI [of _ "[]"]) simp
  next
    case (Inr t)
    then show ?thesis by (intro exI [of _ "Element ''li'' t # ns"]) (simp add: ns)
  qed
qed

text \<open>The list is emptied first, so what the update leaves does not depend on the page.\<close>

lemma update_tips_tipsList:
  "\<exists>ns. \<forall>p. tipsList (fst (update_tips predictions p)) = ns"
proof (cases "get_member predictions ''yield_optimization_tips''")
  case (Inl e)
  then show ?thesis by (simp add: update_tips_def Let_def)
next
  case (Inr v)
  show ?thesis
  proof (cases v)
    case (JArr tips)
    obtain ns where "\<And>p. tipsList (fst (append_tips tips p)) = tipsList p @ ns"
      using append_tips_appends by blast
    then show ?thesis
      by (intro exI [of _ ns]) (simp add: update_tips_def Let_def Inr JArr forEach_tip_def)
  qed (simp_all add: update_tips_def Let_def Inr forEach_tip_def)
qed

lemma displayResults_tipsList:
  "tipsList (fst (displayResults predictions p)) =
     (if snd (block (texts predictions) p) = None
      then tipsList (fst (update_tips predictions (fst (block (texts predictions) p))))
      else tipsList p)"
proof -
  have w: "block (writes predictions) p =
      (case block (texts predictions) p of
         (p', None) \<Rightarrow> update_tips predictions p' | (p', Some e) \<Rightarrow> (p', Some e))"
    using block_append [of "texts predictions" "[update_tips predictions]" p]
    by (simp split: prod.splits option.splits)
  have "tipsList (fst (displayResults predictions p)) =
      tipsList (fst (block (writes predictions) p))"
    by (cases predictions p rule: displayResults_cases) (simp_all add: emit_def)
  also have "\<dots> = (if snd (block (texts predictions) p) = None
      then tipsList (fst (update_tips predictions (fst (block (texts predictions) p))))
      else tipsList p)"
  proof (cases "block (texts predictions) p")
    case (Pair p0 r)
    have "tipsList p0 = tipsList p"
      using texts_tipsList [of predictions p] Pair by simp
    then show ?thesis
      by (cases r) (simp_all add: w Pair)
  qed
  finally show ?thesis .
qed

lemma append_tips_completed:
  assumes "append_tips tips q = (q', None)"
  shows "\<exists>ns. tipsList q' = tipsList q @ ns \<and>
           list_all2 (\<lambda>tip node. \<exists>t. to_dom_string tip = Inr t \<and> node = Element ''li'' t)
             tips ns"
  using assms
proof (induction tips arbitrary: q)
  case Nil
  then show ?case by simp
next
  case (Cons tip tips)
  show ?case
  proof (cases "to_dom_string tip")
    case (Inl e)
    with Cons.prems show ?thesis by simp
  next
    case (Inr t)
    with Cons.prems
    have "append_tips tips (q\<lparr>tipsList := tipsList q @ [Element ''li'' t]\<rparr>) = (q', None)"
      by simp
    from Cons.IH [OF this] obtain ns where
      "tipsList q' = (tipsList q @ [Element ''li'' t]) @ ns"
      "list_all2 (\<lambda>tip node. \<exists>t. to_dom_string tip = Inr t \<and> node = Element ''li'' t) tips ns"
      by auto
    then show ?thesis
      by (intro exI [of _ "Element ''li'' t # ns"]) (simp add: Inr)
  qed
qed

subsection \<open>Claim C9\<close>

text \<open>
  Claim C9. For every value passed as predictions and every page, whatever its tips list
  holds: rendering the same predictions a second time leaves the tips list as the first
  rendering left it, because the list is emptied before the items are appended; this
  holds also when the rendering throws on the way. And when the rendering completes and
  the tips are an array, the tips list holds exactly one item per element of the array,
  in order: an \<^verbatim>\<open>li\<close> element with the text of that tip. So nothing is duplicated and
  nothing of the prior content is left.
\<close>

theorem tips_rendering_idempotent:
  "tipsList (fst (displayResults predictions (fst (displayResults predictions p))))
     = tipsList (fst (displayResults predictions p))
   \<and> (displayResults predictions p = (p', None) \<longrightarrow>
        get_member predictions ''yield_optimization_tips'' = Inr (JArr tips) \<longrightarrow>
        length (tipsList p') = length tips \<and>
        list_all2 (\<lambda>tip node. \<exists>t. to_dom_string tip = Inr t \<and> node = Element ''li'' t)
          tips (tipsList p'))"
proof (intro conjI impI)
  let ?q = "fst (displayResults predictions p)"
  obtain ns where ns: "\<And>p. tipsList (fst (update_tips predictions p)) = ns"
    using update_tips_tipsList by blast
  have same: "snd (block (texts predictions) ?q) = snd (block (texts predictions) p)"
    by (rule texts_outcome)
  show "tipsList (fst (displayResults predictions ?q)) = tipsList ?q"
    by (simp add: displayResults_tipsList [of predictions ?q] same ns)
       (simp add: displayResults_tipsList [of predictions p] ns)
next
  assume complete: "displayResults predictions p = (p', None)"
    and tips: "get_member predictions ''yield_optimization_tips'' = Inr (JArr tips)"
  from complete obtain p1 where w: "block (writes predictions) p = (p1, None)"
    and p': "tipsList p' = tipsList p1"
    by (cases predictions p rule: displayResults_cases) (auto simp: emit_def)
  from w obtain p0 where u: "update_tips predictions p0 = (p1, None)"
    using block_append [of "texts predictions" "[update_tips predictions]" p]
    by (auto split: prod.splits option.splits)
  then have "append_tips tips (p0\<lparr>tipsList := []\<rparr>) = (p1, None)"
    by (simp add: update_tips_def Let_def tips forEach_tip_def)
  from append_tips_completed [OF this]
  have l: "list_all2 (\<lambda>tip node. \<exists>t. to_dom_string tip = Inr t \<and> node = Element ''li'' t)
          tips (tipsList p')"
    by (simp add: p')
  then show "length (tipsList p') = length tips"
    by (simp add: list_all2_lengthD)
  from l show "list_all2 (\<lambda>tip node. \<exists>t. to_dom_string tip = Inr t \<and> node = Element ''li'' t)
          tips (tipsList p')" .
qed

theorem tips_rendering_idempotent_witness:
  "tipsList (fst (displayResults (example_predictions (Finite example_water))
       (fst (displayResults (example_predictions (Finite example_water)) example_page))))
     = tipsList (fst (displayResults (example_predictions (Finite example_water)) example_page))
   \<and> snd (displayResults (example_predictions (Finite example_water)) example_page) = None
   \<and> get_member (example_predictions (Finite example_water)) ''yield_optimization_tips''
       = Inr (JArr [JStr ''Tip A'', JStr ''Tip B''])
   \<and> tipsList example_page = [Element ''li'' ''An earlier tip'']
   \<and> length (tipsList
         (fst (displayResults (example_predictions (Finite example_water)) example_page))) = 2"
  using tips_rendering_idempotent
          [where predictions = "example_predictions (Finite example_water)"
             and p = example_page
             and p' = "fst (displayResults (example_predictions (Finite example_water))
                              example_page)"
             and tips = "[JStr ''Tip A'', JStr ''Tip B'']"]
        displayResults_toFixed
          [OF example_predictions_members, of "Finite example_water" example_page]
  by (simp add: example_predictions_members) (simp add: example_page_def)

end
